theory Spec2Isabelle
  imports Complex_Main "HOL-Library.Sublist"
begin

section \<open>JavaScript values\<close>

text \<open>
  The catalogue is an array of plain objects read from a JSON document. The filter
  methods of \<^verbatim>\<open>class SatCat extends Array\<close> read eight properties of each object and hand
  them to built-ins of the language: \<^verbatim>\<open>Array.prototype.includes\<close>, \<^verbatim>\<open>Number(...)\<close>,
  the relational operators, \<^verbatim>\<open>===\<close>, \<^verbatim>\<open>new RegExp\<close> and \<^verbatim>\<open>RegExp.prototype.test\<close>.
  Their meaning on primitive values is written out here after ECMA-262.

  A Number is an IEEE binary64 value. Its finite values are rationals, so a finite Number
  is carried as the rational it denotes; \<open>+0\<close> and \<open>-0\<close> are both \<open>Fin 0\<close> (no
  operation used by the class tells them apart). Property values are the primitives
  a JSON document can hold, and \<open>undefined\<close>, which reading an absent property gives.
  A string is a list of code units below 256.
\<close>

datatype jsnum = NaN | PosInf | NegInf | Fin rat

datatype jsval = JUndefined | JNull | JBool bool | JNumber jsnum | JString string

datatype js_error = SyntaxError | TypeError

subsection \<open>Comparison of Numbers\<close>

text \<open>\<^verbatim>\<open>Number::lessThan(x, y)\<close>: \<open>None\<close> is the result \<^verbatim>\<open>undefined\<close>, given when an operand is NaN.\<close>

fun Number_lessThan :: "jsnum \<Rightarrow> jsnum \<Rightarrow> bool option" where
  "Number_lessThan NaN y = None"
| "Number_lessThan x NaN = None"
| "Number_lessThan PosInf y = Some False"
| "Number_lessThan x PosInf = Some True"
| "Number_lessThan x NegInf = Some False"
| "Number_lessThan NegInf y = Some True"
| "Number_lessThan (Fin a) (Fin b) = Some (a < b)"

text \<open>
  \<^verbatim>\<open>x <= y\<close> evaluates \<^verbatim>\<open>IsLessThan(y, x)\<close> and is false when that is true or undefined;
  \<^verbatim>\<open>x >= y\<close> evaluates \<^verbatim>\<open>IsLessThan(x, y)\<close> likewise.
\<close>

definition js_le :: "jsnum \<Rightarrow> jsnum \<Rightarrow> bool" where
  "js_le x y = (case Number_lessThan y x of None \<Rightarrow> False | Some r \<Rightarrow> \<not> r)"

definition js_ge :: "jsnum \<Rightarrow> jsnum \<Rightarrow> bool" where
  "js_ge x y = (case Number_lessThan x y of None \<Rightarrow> False | Some r \<Rightarrow> \<not> r)"

text \<open>\<^verbatim>\<open>Number::equal\<close>, the comparison of \<^verbatim>\<open>===\<close> on Numbers: NaN equals nothing.\<close>

fun Number_equal :: "jsnum \<Rightarrow> jsnum \<Rightarrow> bool" where
  "Number_equal NaN y = False"
| "Number_equal x NaN = False"
| "Number_equal x y = (x = y)"

text \<open>\<^verbatim>\<open>Number::sameValueZero\<close>, the comparison of \<^verbatim>\<open>includes\<close>: NaN equals NaN.\<close>

fun Number_sameValueZero :: "jsnum \<Rightarrow> jsnum \<Rightarrow> bool" where
  "Number_sameValueZero NaN NaN = True"
| "Number_sameValueZero x y = (x = y)"

subsection \<open>Equality of values\<close>

text \<open>\<^verbatim>\<open>IsStrictlyEqual(x, y)\<close>, the operator \<^verbatim>\<open>===\<close>: values of different types differ.\<close>

fun IsStrictlyEqual :: "jsval \<Rightarrow> jsval \<Rightarrow> bool" where
  "IsStrictlyEqual (JNumber x) (JNumber y) = Number_equal x y"
| "IsStrictlyEqual JUndefined JUndefined = True"
| "IsStrictlyEqual JNull JNull = True"
| "IsStrictlyEqual (JBool a) (JBool b) = (a = b)"
| "IsStrictlyEqual (JString s) (JString t) = (s = t)"
| "IsStrictlyEqual x y = False"

text \<open>\<^verbatim>\<open>SameValueZero(x, y)\<close>: no coercion either, a string never equals a Number.\<close>

fun SameValueZero :: "jsval \<Rightarrow> jsval \<Rightarrow> bool" where
  "SameValueZero (JNumber x) (JNumber y) = Number_sameValueZero x y"
| "SameValueZero JUndefined JUndefined = True"
| "SameValueZero JNull JNull = True"
| "SameValueZero (JBool a) (JBool b) = (a = b)"
| "SameValueZero (JString s) (JString t) = (s = t)"
| "SameValueZero x y = False"

text \<open>
  \<^verbatim>\<open>Array.prototype.includes(searchElement)\<close>: the elements are compared with the
  searched value from index 0 on, by SameValueZero.
\<close>

fun Array_includes :: "jsval list \<Rightarrow> jsval \<Rightarrow> bool" where
  "Array_includes [] searchElement = False"
| "Array_includes (elementK # rest) searchElement =
     (SameValueZero searchElement elementK \<or> Array_includes rest searchElement)"

section \<open>Conversions between strings and Numbers\<close>

subsection \<open>Rounding to binary64\<close>

text \<open>
  The Number value for a mathematical value: the nearest binary64 value, ties to the even
  significand, infinite from \<open>2^1024\<close> on. \<open>floor_log b a\<close> is the integer part of the
  logarithm of a positive rational, found from the digit counts of numerator and
  denominator.
\<close>

definition pow2 :: "int \<Rightarrow> rat" where
  "pow2 e = (if 0 \<le> e then 2 ^ nat e else 1 / 2 ^ nat (- e))"

definition pow10 :: "int \<Rightarrow> rat" where
  "pow10 e = (if 0 \<le> e then 10 ^ nat e else 1 / 10 ^ nat (- e))"

function count_digits :: "int \<Rightarrow> int \<Rightarrow> int" where
  "count_digits b n = (if b < 2 \<or> n < b then 1 else 1 + count_digits b (n div b))"
  by pat_completeness auto
termination
  by (relation "measure (\<lambda>(b, n). nat n)")
     (auto simp: pos_imp_zdiv_neg_iff intro!: int_div_less_self)

declare count_digits.simps [simp del]

definition floor_log :: "int \<Rightarrow> rat \<Rightarrow> int" where
  "floor_log b a =
     (let (n, d) = quotient_of a;
          g = count_digits b n - count_digits b d;
          p = (if 0 \<le> g then of_int b ^ nat g else 1 / of_int b ^ nat (- g))
      in if p \<le> a then g else g - 1)"

definition round_half_even :: "rat \<Rightarrow> int" where
  "round_half_even m =
     (let f = \<lfloor>m\<rfloor>; d = m - of_int f
      in if d < 1 / 2 then f else if 1 / 2 < d then f + 1 else if even f then f else f + 1)"

definition round64 :: "rat \<Rightarrow> jsnum" where
  "round64 q =
     (if q = 0 then Fin 0
      else let a = \<bar>q\<bar>;
               e = max (floor_log 2 a) (- 1022);
               ulp = pow2 (e - 52);
               r = of_int (round_half_even (a / ulp)) * ulp
           in if pow2 1024 \<le> r then (if q < 0 then NegInf else PosInf)
              else Fin (if q < 0 then - r else r))"

subsection \<open>StringToNumber\<close>

text \<open>
  \<^verbatim>\<open>Number(v)\<close> applied to a string parses it as a \<^verbatim>\<open>StringNumericLiteral\<close>: white space
  around an optional literal, which is a signed decimal literal (digits, a fraction, an
  exponent, or \<^verbatim>\<open>Infinity\<close>) or an unsigned binary, octal or hexadecimal integer. The
  empty literal is \<open>+0\<close>; a string that is not such a literal is NaN.
\<close>

definition code_unit :: "char \<Rightarrow> int" where
  "code_unit c = of_char c"

definition is_StrWhiteSpaceChar :: "char \<Rightarrow> bool" where
  "is_StrWhiteSpaceChar c = (code_unit c \<in> {9, 10, 11, 12, 13, 32, 160})"

definition digit_value :: "char \<Rightarrow> int" where
  "digit_value c =
     (let u = code_unit c
      in if 48 \<le> u \<and> u \<le> 57 then u - 48
         else if 97 \<le> u \<and> u \<le> 102 then u - 87
         else if 65 \<le> u \<and> u \<le> 70 then u - 55
         else 36)"

definition is_digit :: "int \<Rightarrow> char \<Rightarrow> bool" where
  "is_digit base c = (digit_value c < base)"

definition MV_digits :: "int \<Rightarrow> string \<Rightarrow> int" where
  "MV_digits base ds = foldl (\<lambda>acc c. acc * base + digit_value c) 0 ds"

definition trim :: "string \<Rightarrow> string" where
  "trim s = rev (dropWhile is_StrWhiteSpaceChar (rev (dropWhile is_StrWhiteSpaceChar s)))"

definition NonDecimalIntegerLiteral :: "string \<Rightarrow> int option" where
  "NonDecimalIntegerLiteral s =
     (case s of
        z # x # ds \<Rightarrow>
          (let base = (if x \<in> set ''xX'' then 16 else if x \<in> set ''oO'' then 8
                       else if x \<in> set ''bB'' then 2 else 0)
           in if z = CHR ''0'' \<and> base \<noteq> 0 \<and> ds \<noteq> [] \<and> list_all (is_digit base) ds
              then Some (MV_digits base ds) else None)
      | _ \<Rightarrow> None)"

text \<open>
  The exponent part is optional: on a string that does not start with \<^verbatim>\<open>e\<close> or \<^verbatim>\<open>E\<close> the
  exponent is 0 and nothing is consumed; after \<^verbatim>\<open>e\<close> at least one digit is required.
\<close>

definition ExponentPart :: "string \<Rightarrow> (int \<times> string) option" where
  "ExponentPart s =
     (case s of
        [] \<Rightarrow> Some (0, [])
      | c # r \<Rightarrow>
          if c \<in> set ''eE'' then
            (let (neg, r1) = (case r of
                                [] \<Rightarrow> (False, r)
                              | g # r' \<Rightarrow> if g = CHR ''-'' then (True, r')
                                          else if g = CHR ''+'' then (False, r') else (False, r));
                 ds = takeWhile (is_digit 10) r1
             in if ds = [] then None
                else Some (if neg then - MV_digits 10 ds else MV_digits 10 ds,
                           dropWhile (is_digit 10) r1))
          else Some (0, s))"

definition StrUnsignedDecimalLiteral :: "string \<Rightarrow> rat option" where
  "StrUnsignedDecimalLiteral s =
     (let ip = takeWhile (is_digit 10) s;
          r1 = dropWhile (is_digit 10) s;
          (fp, r2) = (case r1 of
                        [] \<Rightarrow> ([], r1)
                      | c # r \<Rightarrow> if c = CHR ''.''
                                  then (takeWhile (is_digit 10) r, dropWhile (is_digit 10) r)
                                  else ([], r1))
      in if ip = [] \<and> fp = [] then None
         else case ExponentPart r2 of
                None \<Rightarrow> None
              | Some (e, r3) \<Rightarrow>
                  if r3 \<noteq> [] then None
                  else Some (of_int (MV_digits 10 (ip @ fp)) * pow10 (e - int (length fp))))"

definition StringToNumber :: "string \<Rightarrow> jsnum" where
  "StringToNumber str =
     (let t = trim str
      in if t = [] then Fin 0
         else case NonDecimalIntegerLiteral t of
                Some n \<Rightarrow> round64 (of_int n)
              | None \<Rightarrow>
                  (let (neg, u) = (case t of
                                     [] \<Rightarrow> (False, t)
                                   | c # r \<Rightarrow> if c = CHR ''-'' then (True, r)
                                               else if c = CHR ''+'' then (False, r)
                                               else (False, t))
                   in if u = ''Infinity'' then (if neg then NegInf else PosInf)
                      else case StrUnsignedDecimalLiteral u of
                             None \<Rightarrow> NaN
                           | Some mv \<Rightarrow> round64 (if neg then - mv else mv)))"

text \<open>\<^verbatim>\<open>ToNumber(v)\<close>, which \<^verbatim>\<open>Number(v)\<close> returns for a value that is not a BigInt.\<close>

fun ToNumber :: "jsval \<Rightarrow> jsnum" where
  "ToNumber JUndefined = NaN"
| "ToNumber JNull = Fin 0"
| "ToNumber (JBool b) = (if b then Fin 1 else Fin 0)"
| "ToNumber (JNumber x) = x"
| "ToNumber (JString s) = StringToNumber s"

subsection \<open>ToString\<close>

text \<open>
  \<^verbatim>\<open>Number::toString(x)\<close> in radix 10 writes the shortest digit string \<open>s\<close> (of \<open>k\<close>
  digits) for which \<open>s * 10^(n-k)\<close> rounds to \<open>x\<close>, taking the closest one when several
  have that length, and lays it out by the position \<open>n\<close> of the decimal point. Seventeen
  digits always suffice for a binary64 value.
\<close>

function digits_of :: "int \<Rightarrow> string" where
  "digits_of n = (if n < 10 then [''0123456789'' ! nat n]
                  else digits_of (n div 10) @ [''0123456789'' ! nat (n mod 10)])"
  by pat_completeness auto
termination
  by (relation "measure nat") (auto intro!: int_div_less_self)

declare digits_of.simps [simp del]

definition toString_candidates :: "rat \<Rightarrow> int \<Rightarrow> (int \<times> int) list" where
  "toString_candidates q k =
     (let m = floor_log 10 q + 1;
          lo = \<lfloor>q / pow10 (m - k)\<rfloor>
      in filter (\<lambda>(n, s). 10 ^ nat (k - 1) \<le> s \<and> s < 10 ^ nat k \<and>
                           round64 (of_int s * pow10 (n - k)) = round64 q)
           [(m, lo), (m, lo + 1), (m + 1, 10 ^ nat (k - 1))])"

definition closer :: "rat \<Rightarrow> int \<Rightarrow> int \<times> int \<Rightarrow> int \<times> int \<Rightarrow> int \<times> int" where
  "closer q k c1 c2 =
     (let d1 = \<bar>of_int (snd c1) * pow10 (fst c1 - k) - q\<bar>;
          d2 = \<bar>of_int (snd c2) * pow10 (fst c2 - k) - q\<bar>
      in if d2 < d1 \<or> (d2 = d1 \<and> even (snd c2)) then c2 else c1)"

fun shortest :: "rat \<Rightarrow> int list \<Rightarrow> int \<times> int \<times> int" where
  "shortest q [] =
     (floor_log 10 q + 1, 17, round_half_even (q / pow10 (floor_log 10 q + 1 - 17)))"
| "shortest q (k # ks) =
     (case toString_candidates q k of
        [] \<Rightarrow> shortest q ks
      | c # cs \<Rightarrow> (let (n, s) = foldl (closer q k) c cs in (n, k, s)))"

definition Number_toString_pos :: "rat \<Rightarrow> string" where
  "Number_toString_pos q =
     (let (n, k, s) = shortest q [1, 2, 3, 4, 5, 6, 7, 8, 9, 10, 11, 12, 13, 14, 15, 16, 17];
          ds = digits_of s;
          e = n - 1;
          exponent = (if e < 0 then ''-'' else ''+'') @ digits_of \<bar>e\<bar>
      in if k \<le> n \<and> n \<le> 21 then ds @ replicate (nat (n - k)) (CHR ''0'')
         else if 0 < n \<and> n \<le> 21 then take (nat n) ds @ ''.'' @ drop (nat n) ds
         else if - 6 < n \<and> n \<le> 0 then ''0.'' @ replicate (nat (- n)) (CHR ''0'') @ ds
         else if k = 1 then ds @ ''e'' @ exponent
         else take 1 ds @ ''.'' @ drop 1 ds @ ''e'' @ exponent)"

fun Number_toString :: "jsnum \<Rightarrow> string" where
  "Number_toString NaN = ''NaN''"
| "Number_toString PosInf = ''Infinity''"
| "Number_toString NegInf = ''-Infinity''"
| "Number_toString (Fin q) =
     (if q = 0 then ''0''
      else if q < 0 then ''-'' @ Number_toString_pos (- q)
      else Number_toString_pos q)"

text \<open>\<^verbatim>\<open>ToString(v)\<close>, which \<^verbatim>\<open>RegExp.prototype.test\<close> applies to its argument.\<close>

fun ToString :: "jsval \<Rightarrow> string" where
  "ToString JUndefined = ''undefined''"
| "ToString JNull = ''null''"
| "ToString (JBool b) = (if b then ''true'' else ''false'')"
| "ToString (JNumber x) = Number_toString x"
| "ToString (JString s) = s"
section \<open>Records, views and the store\<close>

text \<open>
  A satellite record is an object: a finite table from property names to values. Reading
  a property the object does not have gives \<^verbatim>\<open>undefined\<close>.
\<close>

type_synonym sat = "string \<Rightarrow> jsval option"

definition Get :: "sat \<Rightarrow> string \<Rightarrow> jsval" where
  "Get obj key = (case obj key of None \<Rightarrow> JUndefined | Some v \<Rightarrow> v)"

text \<open>
  A \<^verbatim>\<open>SatCat\<close> is an array object, and arrays are mutable and shared by reference. The
  store holds the element sequence of every array allocated so far; an array's address is
  its index in the store, and a new array takes the next index.
\<close>

type_synonym view = "sat list"
type_synonym addr = nat
type_synonym heap = "view list"

subsection \<open>The constructor\<close>

text \<open>
  \<^verbatim>\<open>constructor(satCatData) { super(); for (let i=0; i<satCatData.length; i++) { this.push(satCatData[i]); } }\<close>

  \<^verbatim>\<open>super()\<close> allocates an empty array. The constructor is called with an array of records
  by the loaders, and with the Number 0 by \<^verbatim>\<open>Array.prototype.filter\<close> (through
  \<^verbatim>\<open>ArraySpeciesCreate(O, 0)\<close>, which constructs \<^verbatim>\<open>new SatCat(0)\<close>). A Number has no
  \<^verbatim>\<open>length\<close>: the test \<^verbatim>\<open>0 < undefined\<close> is false and the loop body never runs.
\<close>

datatype ctor_arg = ArrayArg "sat list" | NumberArg jsnum

function push_loop :: "sat list \<Rightarrow> nat \<Rightarrow> addr \<Rightarrow> heap \<Rightarrow> heap" where
  "push_loop satCatData i this h =
     (if i < length satCatData
      then push_loop satCatData (Suc i) this (h[this := h ! this @ [satCatData ! i]])
      else h)"
  by pat_completeness auto
termination
  by (relation "measure (\<lambda>(satCatData, i, this, h). length satCatData - i)") auto

declare push_loop.simps [simp del]

definition SatCat_new :: "ctor_arg \<Rightarrow> heap \<Rightarrow> heap \<times> addr" where
  "SatCat_new satCatData h =
     (let this = length h; h1 = h @ [[]]
      in case satCatData of
           ArrayArg records \<Rightarrow> (push_loop records 0 this h1, this)
         | NumberArg n \<Rightarrow> (h1, this))"

subsection \<open>Array.prototype.filter\<close>

text \<open>
  \<^verbatim>\<open>this.filter(callback)\<close> runs the inherited \<^verbatim>\<open>Array.prototype.filter\<close>: it reads the
  length of the receiver \<open>O\<close> once, creates the result array \<open>A\<close> with the receiver's
  own constructor, and for \<open>k\<close> from 0 below that length reads element \<open>k\<close> of \<open>O\<close> when
  it is present, calls the callback on it and appends it to \<open>A\<close> when the callback
  answers true. The callbacks of this class read their argument and write nothing.
\<close>

function filter_loop :: "(sat \<Rightarrow> bool) \<Rightarrow> addr \<Rightarrow> addr \<Rightarrow> nat \<Rightarrow> nat \<Rightarrow> heap \<Rightarrow> heap" where
  "filter_loop callback O' A len k h =
     (if k < len
      then (if k < length (h ! O')
            then (let kValue = h ! O' ! k
                  in filter_loop callback O' A len (Suc k)
                       (if callback kValue then h[A := h ! A @ [kValue]] else h))
            else filter_loop callback O' A len (Suc k) h)
      else h)"
  by pat_completeness auto
termination
  by (relation "measure (\<lambda>(callback, O', A, len, k, h). len - k)") auto

declare filter_loop.simps [simp del]

definition Array_filter :: "(sat \<Rightarrow> bool) \<Rightarrow> addr \<Rightarrow> heap \<Rightarrow> heap \<times> addr" where
  "Array_filter callback this h =
     (let len = length (h ! this);
          (h1, A) = SatCat_new (NumberArg (Fin 0)) h
      in (filter_loop callback this A len 0 h1, A))"

section \<open>The filter methods of SatCat\<close>

text \<open>
  Each method body is \<^verbatim>\<open>return this.filter(callback)\<close>; the two pattern methods first build
  a regular expression. The regular-expression engine is a built-in of the language and is
  a parameter here: \<open>RegExp pattern flags\<close> is \<open>None\<close> when \<^verbatim>\<open>new RegExp(pattern, flags)\<close>
  throws its \<^verbatim>\<open>SyntaxError\<close>, and otherwise the matcher that \<^verbatim>\<open>regex.test\<close> runs on the
  string form of its argument (with neither the \<^verbatim>\<open>g\<close> nor the \<^verbatim>\<open>y\<close> flag a regular
  expression keeps no state between tests).
\<close>

type_synonym regexp_ctor = "string \<Rightarrow> string \<Rightarrow> (string \<Rightarrow> bool) option"

text \<open>\<^verbatim>\<open>filterByTypes(objectTypes) { return this.filter((sat) => objectTypes.includes(sat.OBJECT_TYPE)); }\<close>\<close>

definition filterByTypes :: "jsval list \<Rightarrow> addr \<Rightarrow> heap \<Rightarrow> heap \<times> addr" where
  "filterByTypes objectTypes this h =
     Array_filter (\<lambda>sat. Array_includes objectTypes (Get sat ''OBJECT_TYPE'')) this h"

text \<open>
  \<^verbatim>\<open>filterByNamePattern(pattern) { const regex = new RegExp(pattern, 'i'); return this.filter((sat) => regex.test(sat.SATNAME)); }\<close>
\<close>

definition filterByNamePattern ::
  "regexp_ctor \<Rightarrow> string \<Rightarrow> addr \<Rightarrow> heap \<Rightarrow> heap \<times> (js_error + addr)" where
  "filterByNamePattern RegExp pattern this h =
     (case RegExp pattern ''i'' of
        None \<Rightarrow> (h, Inl SyntaxError)
      | Some regex \<Rightarrow>
          (let (h', A) = Array_filter (\<lambda>sat. regex (ToString (Get sat ''SATNAME''))) this h
           in (h', Inr A)))"

text \<open>\<^verbatim>\<open>filterByCountryCodes(countryCodes) { return this.filter((sat) => countryCodes.includes(sat.COUNTRY)); }\<close>\<close>

definition filterByCountryCodes :: "jsval list \<Rightarrow> addr \<Rightarrow> heap \<Rightarrow> heap \<times> addr" where
  "filterByCountryCodes countryCodes this h =
     Array_filter (\<lambda>sat. Array_includes countryCodes (Get sat ''COUNTRY'')) this h"

text \<open>\<^verbatim>\<open>filterByStillOnOrbit() { return this.filter((sat) => sat.DECAY === null); }\<close>\<close>

definition filterByStillOnOrbit :: "addr \<Rightarrow> heap \<Rightarrow> heap \<times> addr" where
  "filterByStillOnOrbit this h =
     Array_filter (\<lambda>sat. IsStrictlyEqual (Get sat ''DECAY'') JNull) this h"

text \<open>\<^verbatim>\<open>filterByLaunchYears(years) { return this.filter((sat) => years.includes(Number(sat.LAUNCH_YEAR))); }\<close>\<close>

definition filterByLaunchYears :: "jsval list \<Rightarrow> addr \<Rightarrow> heap \<Rightarrow> heap \<times> addr" where
  "filterByLaunchYears years this h =
     Array_filter (\<lambda>sat. Array_includes years (JNumber (ToNumber (Get sat ''LAUNCH_YEAR'')))) this h"

text \<open>
  \<^verbatim>\<open>filterByLaunchYearRange(startYear, endYear) { return this.filter((sat) => { const launchYear = Number(sat.LAUNCH_YEAR); return launchYear >= startYear && launchYear <= endYear; }); }\<close>
\<close>

definition filterByLaunchYearRange :: "jsnum \<Rightarrow> jsnum \<Rightarrow> addr \<Rightarrow> heap \<Rightarrow> heap \<times> addr" where
  "filterByLaunchYearRange startYear endYear this h =
     Array_filter (\<lambda>sat. let launchYear = ToNumber (Get sat ''LAUNCH_YEAR'')
                         in js_ge launchYear startYear \<and> js_le launchYear endYear) this h"

text \<open>
  \<^verbatim>\<open>filterByMaxPerigee(maxPerigee) { return this.filter((sat) => { const perigee = Number(sat.PERIGEE); return perigee <= maxPerigee; }); }\<close>
\<close>

definition filterByMaxPerigee :: "jsnum \<Rightarrow> addr \<Rightarrow> heap \<Rightarrow> heap \<times> addr" where
  "filterByMaxPerigee maxPerigee this h =
     Array_filter (\<lambda>sat. let perigee = ToNumber (Get sat ''PERIGEE'')
                         in js_le perigee maxPerigee) this h"

text \<open>
  \<^verbatim>\<open>filterByMinApogee(minApogee) { return this.filter((sat) => { const apogee = Number(sat.APOGEE); return apogee >= minApogee; }); }\<close>
\<close>

definition filterByMinApogee :: "jsnum \<Rightarrow> addr \<Rightarrow> heap \<Rightarrow> heap \<times> addr" where
  "filterByMinApogee minApogee this h =
     Array_filter (\<lambda>sat. let apogee = ToNumber (Get sat ''APOGEE'')
                         in js_ge apogee minApogee) this h"

text \<open>\<^verbatim>\<open>filterByNoradIds(noradIds) { return this.filter((sat) => noradIds.includes(sat.NORAD_CAT_ID)); }\<close>\<close>

definition filterByNoradIds :: "jsval list \<Rightarrow> addr \<Rightarrow> heap \<Rightarrow> heap \<times> addr" where
  "filterByNoradIds noradIds this h =
     Array_filter (\<lambda>sat. Array_includes noradIds (Get sat ''NORAD_CAT_ID'')) this h"

text \<open>
  \<^verbatim>\<open>filterByNoradIdPattern(pattern) { const regex = new RegExp(pattern, 'i'); return this.filter((sat) => regex.test(sat.NORAD_CAT_ID)); }\<close>
\<close>

definition filterByNoradIdPattern ::
  "regexp_ctor \<Rightarrow> string \<Rightarrow> addr \<Rightarrow> heap \<Rightarrow> heap \<times> (js_error + addr)" where
  "filterByNoradIdPattern RegExp pattern this h =
     (case RegExp pattern ''i'' of
        None \<Rightarrow> (h, Inl SyntaxError)
      | Some regex \<Rightarrow>
          (let (h', A) = Array_filter (\<lambda>sat. regex (ToString (Get sat ''NORAD_CAT_ID''))) this h
           in (h', Inr A)))"

subsection \<open>Calls\<close>

text \<open>
  A call of one of the ten filter methods with its arguments, so that a statement can
  range over all of them. \<open>invoke\<close> runs the call on the receiver at \<open>this\<close> and gives the
  store after the call with the address of the returned view, or the error thrown.
\<close>

datatype call =
    FilterByTypes "jsval list"
  | FilterByNamePattern string
  | FilterByCountryCodes "jsval list"
  | FilterByStillOnOrbit
  | FilterByLaunchYears "jsval list"
  | FilterByLaunchYearRange jsnum jsnum
  | FilterByMaxPerigee jsnum
  | FilterByMinApogee jsnum
  | FilterByNoradIds "jsval list"
  | FilterByNoradIdPattern string

definition returns :: "heap \<times> addr \<Rightarrow> heap \<times> (js_error + addr)" where
  "returns r = (fst r, Inr (snd r))"

fun invoke :: "regexp_ctor \<Rightarrow> call \<Rightarrow> addr \<Rightarrow> heap \<Rightarrow> heap \<times> (js_error + addr)" where
  "invoke RegExp (FilterByTypes objectTypes) this h = returns (filterByTypes objectTypes this h)"
| "invoke RegExp (FilterByNamePattern pattern) this h = filterByNamePattern RegExp pattern this h"
| "invoke RegExp (FilterByCountryCodes countryCodes) this h =
     returns (filterByCountryCodes countryCodes this h)"
| "invoke RegExp FilterByStillOnOrbit this h = returns (filterByStillOnOrbit this h)"
| "invoke RegExp (FilterByLaunchYears years) this h = returns (filterByLaunchYears years this h)"
| "invoke RegExp (FilterByLaunchYearRange startYear endYear) this h =
     returns (filterByLaunchYearRange startYear endYear this h)"
| "invoke RegExp (FilterByMaxPerigee maxPerigee) this h =
     returns (filterByMaxPerigee maxPerigee this h)"
| "invoke RegExp (FilterByMinApogee minApogee) this h =
     returns (filterByMinApogee minApogee this h)"
| "invoke RegExp (FilterByNoradIds noradIds) this h = returns (filterByNoradIds noradIds this h)"
| "invoke RegExp (FilterByNoradIdPattern pattern) this h =
     filterByNoradIdPattern RegExp pattern this h"

declare invoke.simps [simp del]

text \<open>
  A chained call \<^verbatim>\<open>view.f(x).g(y)\<close>: the second method runs on the view the first returned;
  when the first throws, the second is never called.
\<close>

definition and_then ::
  "heap \<times> (js_error + addr) \<Rightarrow> (addr \<Rightarrow> heap \<Rightarrow> heap \<times> (js_error + addr))
   \<Rightarrow> heap \<times> (js_error + addr)" where
  "and_then r method = (case snd r of Inl e \<Rightarrow> r | Inr A \<Rightarrow> method A (fst r))"

text \<open>The elements of the view a call returned, read from the store it left.\<close>

definition returned_view :: "heap \<times> (js_error + addr) \<Rightarrow> js_error + view" where
  "returned_view r = (case snd r of Inl e \<Rightarrow> Inl e | Inr A \<Rightarrow> Inr (fst r ! A))"

text \<open>
  The predicate of a call: the arrow function its method hands to \<^verbatim>\<open>filter\<close>. There is
  none when the pattern does not compile.
\<close>

fun callback_of :: "regexp_ctor \<Rightarrow> call \<Rightarrow> (sat \<Rightarrow> bool) option" where
  "callback_of RegExp (FilterByTypes objectTypes) =
     Some (\<lambda>sat. Array_includes objectTypes (Get sat ''OBJECT_TYPE''))"
| "callback_of RegExp (FilterByNamePattern pattern) =
     map_option (\<lambda>regex sat. regex (ToString (Get sat ''SATNAME''))) (RegExp pattern ''i'')"
| "callback_of RegExp (FilterByCountryCodes countryCodes) =
     Some (\<lambda>sat. Array_includes countryCodes (Get sat ''COUNTRY''))"
| "callback_of RegExp FilterByStillOnOrbit =
     Some (\<lambda>sat. IsStrictlyEqual (Get sat ''DECAY'') JNull)"
| "callback_of RegExp (FilterByLaunchYears years) =
     Some (\<lambda>sat. Array_includes years (JNumber (ToNumber (Get sat ''LAUNCH_YEAR''))))"
| "callback_of RegExp (FilterByLaunchYearRange startYear endYear) =
     Some (\<lambda>sat. js_ge (ToNumber (Get sat ''LAUNCH_YEAR'')) startYear \<and>
                  js_le (ToNumber (Get sat ''LAUNCH_YEAR'')) endYear)"
| "callback_of RegExp (FilterByMaxPerigee maxPerigee) =
     Some (\<lambda>sat. js_le (ToNumber (Get sat ''PERIGEE'')) maxPerigee)"
| "callback_of RegExp (FilterByMinApogee minApogee) =
     Some (\<lambda>sat. js_ge (ToNumber (Get sat ''APOGEE'')) minApogee)"
| "callback_of RegExp (FilterByNoradIds noradIds) =
     Some (\<lambda>sat. Array_includes noradIds (Get sat ''NORAD_CAT_ID''))"
| "callback_of RegExp (FilterByNoradIdPattern pattern) =
     map_option (\<lambda>regex sat. regex (ToString (Get sat ''NORAD_CAT_ID''))) (RegExp pattern ''i'')"

subsection \<open>The members of the class\<close>

text \<open>
  The members the body of \<^verbatim>\<open>class SatCat\<close> declares, in the order of the source:
  the constructor, two static loaders and ten methods. A name the table does not hold is
  not a method of the class; it is not one of \<^verbatim>\<open>Array.prototype\<close> either unless the
  language defines it there.
\<close>

datatype member_kind = Constructor | Static | Method

definition SatCat_members :: "(string \<times> member_kind) list" where
  "SatCat_members =
     [(''constructor'', Constructor),
      (''fromJSON'', Static),
      (''fromURL'', Static),
      (''filterByTypes'', Method),
      (''filterByNamePattern'', Method),
      (''filterByCountryCodes'', Method),
      (''filterByStillOnOrbit'', Method),
      (''filterByLaunchYears'', Method),
      (''filterByLaunchYearRange'', Method),
      (''filterByMaxPerigee'', Method),
      (''filterByMinApogee'', Method),
      (''filterByNoradIds'', Method),
      (''filterByNoradIdPattern'', Method)]"

definition SatCat_member :: "string \<Rightarrow> member_kind option" where
  "SatCat_member name = map_of SatCat_members name"

section \<open>Vocabulary of the claims\<close>

text \<open>
  A property that is absent, or that holds a string \<^verbatim>\<open>Number\<close> cannot read as a numeric
  literal. (The empty string and a string of white space are numeric: they read as 0.)
\<close>

definition absent_or_non_numeric_string :: "sat \<Rightarrow> string \<Rightarrow> bool" where
  "absent_or_non_numeric_string sat key =
     (case sat key of
        None \<Rightarrow> True
      | Some (JString s) \<Rightarrow> StringToNumber s = NaN
      | Some _ \<Rightarrow> False)"

text \<open>The Number that denotes an integer, and the array of the integers from one to another.\<close>

definition integer_Number :: "int \<Rightarrow> jsnum" where
  "integer_Number k = Fin (of_int k)"

definition integers_from_to :: "int \<Rightarrow> int \<Rightarrow> jsval list" where
  "integers_from_to start end' = map (\<lambda>y. JNumber (integer_Number y)) [start..end']"

section \<open>An engine and a catalogue to run the methods on\<close>

text \<open>
  Letters are compared without regard to case by their upper-case forms; on the ASCII
  letters this is what the \<^verbatim>\<open>i\<close> flag does. A matcher ignores ASCII case when strings with
  the same upper-case form get the same answer, and an engine honours the flag when every
  matcher it builds with \<^verbatim>\<open>'i'\<close> does.
\<close>

definition ascii_upper :: "char \<Rightarrow> char" where
  "ascii_upper c =
     (case map_of (zip ''abcdefghijklmnopqrstuvwxyz'' ''ABCDEFGHIJKLMNOPQRSTUVWXYZ'') c of
        None \<Rightarrow> c
      | Some C \<Rightarrow> C)"

definition ignores_case :: "(string \<Rightarrow> bool) \<Rightarrow> bool" where
  "ignores_case regex = (\<forall>s t. map ascii_upper s = map ascii_upper t \<longrightarrow> regex s = regex t)"

definition honours_i_flag :: "regexp_ctor \<Rightarrow> bool" where
  "honours_i_flag RegExp = (\<forall>pattern regex. RegExp pattern ''i'' = Some regex \<longrightarrow> ignores_case regex)"

text \<open>
  The engine of the examples knows one kind of pattern: a text without syntax characters,
  which it searches for anywhere in the string, ignoring ASCII case. It rejects every other
  pattern, the ill-formed ones such as \<^verbatim>\<open>(\<close> among them. It stands for the engine of the
  language only on the patterns the examples use.
\<close>

definition is_SyntaxCharacter :: "char \<Rightarrow> bool" where
  "is_SyntaxCharacter c = (c \<in> set (CHR 0x5C # ''^$.*+?()[]{}|''))"

fun starts_with :: "string \<Rightarrow> string \<Rightarrow> bool" where
  "starts_with [] s = True"
| "starts_with (p # ps) [] = False"
| "starts_with (p # ps) (c # cs) = (ascii_upper p = ascii_upper c \<and> starts_with ps cs)"

fun occurs_in :: "string \<Rightarrow> string \<Rightarrow> bool" where
  "occurs_in lit [] = starts_with lit []"
| "occurs_in lit (c # cs) = (starts_with lit (c # cs) \<or> occurs_in lit cs)"

definition literal_RegExp :: regexp_ctor where
  "literal_RegExp pattern flags =
     (if flags = ''i'' \<and> \<not> list_ex is_SyntaxCharacter pattern
      then Some (occurs_in pattern) else None)"

text \<open>Four records in the shape of the catalogue's, the last with a number as its id.\<close>

definition sl1_rb :: sat where
  "sl1_rb = map_of
     [(''OBJECT_TYPE'', JString ''ROCKET BODY''), (''SATNAME'', JString ''SL-1 R/B''),
      (''COUNTRY'', JString ''CIS''), (''DECAY'', JString ''1957-12-01''),
      (''LAUNCH_YEAR'', JString ''1957''), (''PERIGEE'', JString ''214''),
      (''APOGEE'', JString ''938''), (''NORAD_CAT_ID'', JString ''1'')]"

definition iss :: sat where
  "iss = map_of
     [(''OBJECT_TYPE'', JString ''PAYLOAD''), (''SATNAME'', JString ''ISS (ZARYA)''),
      (''COUNTRY'', JString ''ISS''), (''DECAY'', JNull),
      (''LAUNCH_YEAR'', JString ''1998''), (''PERIGEE'', JString ''415''),
      (''APOGEE'', JString ''421''), (''NORAD_CAT_ID'', JString ''25544'')]"

definition object_a :: sat where
  "object_a = map_of
     [(''OBJECT_TYPE'', JString ''TBA''), (''SATNAME'', JString ''OBJECT A''),
      (''COUNTRY'', JString ''US''),
      (''LAUNCH_YEAR'', JString ''unknown''), (''APOGEE'', JString ''n/a''),
      (''NORAD_CAT_ID'', JString ''270001'')]"

definition iss_number_id :: sat where
  "iss_number_id = map_of
     [(''OBJECT_TYPE'', JString ''PAYLOAD''), (''SATNAME'', JString ''iss (zarya)''),
      (''COUNTRY'', JString ''ISS''), (''DECAY'', JNull),
      (''LAUNCH_YEAR'', JNumber (Fin 1998)), (''PERIGEE'', JNumber (Fin 415)),
      (''APOGEE'', JNumber (Fin 421)), (''NORAD_CAT_ID'', JNumber (Fin 25544))]"

definition catalogue :: view where
  "catalogue = [sl1_rb, iss, object_a, iss_number_id]"

section \<open>Facts about the built-ins\<close>

subsection \<open>Rounding keeps the integers below \<open>2^53\<close>\<close>

lemma count_digits_2_le: "n < 2 ^ j \<Longrightarrow> 0 < j \<Longrightarrow> count_digits 2 n \<le> int j"
proof (induction j arbitrary: n)
  case 0
  then show ?case by simp
next
  case (Suc j)
  show ?case
  proof (cases "n < 2")
    case True
    then show ?thesis by (subst count_digits.simps) simp
  next
    case False
    then have j: "0 < j" using Suc.prems by (cases j) auto
    have "n div 2 < 2 ^ j" using Suc.prems by auto
    from Suc.IH[OF this j] False show ?thesis by (subst count_digits.simps) simp
  qed
qed

lemma floor_log_2_int_le:
  assumes "0 < n" "n < 2 ^ 53"
  shows "floor_log 2 (of_int n) \<le> 52"
proof -
  have c1: "count_digits 2 1 = 1" by (subst count_digits.simps) simp
  have "count_digits 2 n \<le> int 53" using assms by (intro count_digits_2_le) auto
  then show ?thesis
    by (simp add: floor_log_def c1 Let_def)
qed

lemma round_half_even_of_int: "round_half_even (of_int z) = z"
  by (simp add: round_half_even_def)

lemma round64_of_int:
  assumes "\<bar>i\<bar> < 2 ^ 53"
  shows "round64 (of_int i) = Fin (of_int i)"
proof (cases "i = 0")
  case True
  then show ?thesis by (simp add: round64_def)
next
  case False
  define a :: rat where "a = \<bar>of_int i\<bar>"
  define e where "e = max (floor_log 2 a) (- 1022)"
  have a_int: "a = of_int \<bar>i\<bar>" by (simp add: a_def)
  have "floor_log 2 a \<le> 52"
    unfolding a_int using False assms by (intro floor_log_2_int_le) auto
  then have e: "e \<le> 52" by (simp add: e_def)
  define z where "z = \<bar>i\<bar> * 2 ^ nat (52 - e)"
  have scaled: "a / pow2 (e - 52) = of_int z"
    using e by (auto simp: pow2_def z_def a_int)
  have rounded: "round_half_even (a / pow2 (e - 52)) = z"
    unfolding scaled by (rule round_half_even_of_int)
  have unscaled: "of_int z * pow2 (e - 52) = a"
    using e by (auto simp: pow2_def z_def a_int)
  have small: "\<not> pow2 1024 \<le> a"
  proof -
    have "a < 2 ^ 53" unfolding a_int using assms
      by (metis of_int_less_numeral_power_cancel_iff)
    moreover have "(2::rat) ^ 53 \<le> 2 ^ 1024" by (intro power_increasing) auto
    ultimately show ?thesis by (simp add: pow2_def)
  qed
  have "round64 (of_int i) = Fin (if of_int i < (0::rat) then - a else a)"
    using False small
    by (simp add: round64_def Let_def a_def[symmetric] e_def[symmetric] rounded unscaled)
  then show ?thesis by (auto simp: a_def)
qed

lemma round64_numeral:
  "(numeral w :: int) < 2 ^ 53 \<Longrightarrow> round64 (numeral w) = Fin (numeral w)"
  using round64_of_int[of "numeral w"] by simp

lemma floor_numeral_divide:
  "\<lfloor>(numeral a :: rat) / numeral b\<rfloor> = numeral a div numeral b"
  using floor_divide_of_int_eq[of "numeral a" "numeral b", where ?'a = rat] by simp

lemmas StringToNumber_eval =
  StringToNumber_def trim_def is_StrWhiteSpaceChar_def code_unit_def
  NonDecimalIntegerLiteral_def StrUnsignedDecimalLiteral_def ExponentPart_def is_digit_def
  digit_value_def MV_digits_def pow10_def round64_numeral

subsection \<open>Comparisons\<close>

lemma js_le_NaN [simp]: "js_le NaN y = False" "js_le x NaN = False"
  by (cases y; simp add: js_le_def) (cases x; simp add: js_le_def)

lemma js_ge_NaN [simp]: "js_ge NaN y = False" "js_ge x NaN = False"
  by (simp add: js_ge_def) (cases x; simp add: js_ge_def)

lemma js_le_Fin [simp]: "js_le (Fin a) (Fin b) = (a \<le> b)"
  by (auto simp: js_le_def)

lemma js_ge_Fin [simp]: "js_ge (Fin a) (Fin b) = (b \<le> a)"
  by (auto simp: js_ge_def)

lemma js_ge_iff_le: "js_ge x y = js_le y x"
  by (simp add: js_ge_def js_le_def)

lemma js_le_refl: "x \<noteq> NaN \<Longrightarrow> js_le x x"
  by (cases x) (simp_all add: js_le_def)

lemma Number_equal_iff: "Number_equal x y \<longleftrightarrow> x = y \<and> x \<noteq> NaN"
  by (cases x; cases y; simp)

lemma Number_sameValueZero_iff: "Number_sameValueZero x y \<longleftrightarrow> x = y"
  by (cases x; cases y; simp)

lemma SameValueZero_iff: "SameValueZero x y \<longleftrightarrow> x = y"
  by (cases x; cases y; simp add: Number_sameValueZero_iff)

lemma Array_includes_iff: "Array_includes xs v \<longleftrightarrow> v \<in> set xs"
  by (induction xs) (auto simp: SameValueZero_iff)

lemma IsStrictlyEqual_JNull: "IsStrictlyEqual v JNull \<longleftrightarrow> v = JNull"
  by (cases v) simp_all

subsection \<open>What a call of filter leaves in the store\<close>

lemma filter_loop_appends:
  assumes "A < length h" "A \<noteq> this" "this < length h" "len = length (h ! this)"
  shows "filter_loop callback this A len k h =
         h[A := h ! A @ filter callback (drop k (h ! this))]"
  using assms
proof (induction callback this A len k h rule: filter_loop.induct)
  case (1 callback this A len k h)
  show ?case
  proof (cases "k < len")
    case False
    with "1.prems" show ?thesis
      by (subst filter_loop.simps) (simp add: list_update_same_conv)
  next
    case True
    with "1.prems" have inside: "k < length (h ! this)" by simp
    let ?kValue = "h ! this ! k"
    let ?h' = "if callback ?kValue then h[A := h ! A @ [?kValue]] else h"
    have step: "filter_loop callback this A len k h = filter_loop callback this A len (Suc k) ?h'"
      using True inside by (subst filter_loop.simps) (simp add: Let_def)
    have same: "?h' ! this = h ! this" and size: "A < length ?h'" "this < length ?h'"
      using "1.prems" by auto
    have ih: "filter_loop callback this A len (Suc k) ?h' =
              ?h'[A := ?h' ! A @ filter callback (drop (Suc k) (?h' ! this))]"
      using "1.IH"(1)[OF True inside refl size(1) "1.prems"(2) size(2)] same "1.prems"(4)
      by simp
    have unfold_drop: "drop k (h ! this) = ?kValue # drop (Suc k) (h ! this)"
      using inside by (simp add: Cons_nth_drop_Suc)
    show ?thesis
      using "1.prems"(1) by (simp only: step ih same unfold_drop) simp
  qed
qed

lemma Array_filter_result:
  assumes "this < length h"
  shows "Array_filter callback this h = (h @ [filter callback (h ! this)], length h)"
proof -
  have "filter_loop callback this (length h) (length (h ! this)) 0 (h @ [[]]) =
        (h @ [[]])[length h := (h @ [[]]) ! length h @ filter callback (drop 0 ((h @ [[]]) ! this))]"
    using assms by (intro filter_loop_appends) (simp_all add: nth_append)
  then show ?thesis
    using assms by (simp add: Array_filter_def SatCat_new_def nth_append)
qed

lemma invoke_result:
  assumes "this < length h"
  shows "invoke RegExp c this h =
         (case callback_of RegExp c of
            None \<Rightarrow> (h, Inl SyntaxError)
          | Some P \<Rightarrow> (h @ [filter P (h ! this)], Inr (length h)))"
proof (cases c)
  case (FilterByNamePattern pattern)
  then show ?thesis
    using assms by (cases "RegExp pattern ''i''")
      (simp_all add: invoke.simps filterByNamePattern_def Array_filter_result)
next
  case (FilterByNoradIdPattern pattern)
  then show ?thesis
    using assms by (cases "RegExp pattern ''i''")
      (simp_all add: invoke.simps filterByNoradIdPattern_def Array_filter_result)
qed (use assms in \<open>simp_all add: invoke.simps returns_def Array_filter_result Let_def
      filterByTypes_def filterByCountryCodes_def filterByStillOnOrbit_def
      filterByLaunchYears_def filterByLaunchYearRange_def filterByMaxPerigee_def
      filterByMinApogee_def filterByNoradIds_def\<close>)

lemma invoke_returned:
  assumes "this < length h" "callback_of RegExp c = Some P"
  shows "invoke RegExp c this h = (h @ [filter P (h ! this)], Inr (length h))"
  using assms by (simp add: invoke_result)

lemma invoke_thrown:
  assumes "this < length h" "callback_of RegExp c = None"
  shows "invoke RegExp c this h = (h, Inl SyntaxError)"
  using assms by (simp add: invoke_result)

lemma returned_view_invoke:
  assumes "this < length h"
  shows "returned_view (invoke RegExp c this h) =
         (case callback_of RegExp c of
            None \<Rightarrow> Inl SyntaxError
          | Some P \<Rightarrow> Inr (filter P (h ! this)))"
  using assms by (simp add: invoke_result returned_view_def split: option.split)

subsection \<open>The engine of the examples\<close>

lemma starts_with_upper:
  "map ascii_upper s = map ascii_upper t \<Longrightarrow> starts_with lit s = starts_with lit t"
proof (induction lit s arbitrary: t rule: starts_with.induct)
  case (1 s)
  then show ?case by simp
next
  case (2 p ps)
  then show ?case by simp
next
  case (3 p ps c cs)
  then obtain d ds where t: "t = d # ds" by (cases t) auto
  with 3 show ?case by auto
qed

lemma occurs_in_upper:
  "map ascii_upper s = map ascii_upper t \<Longrightarrow> occurs_in lit s = occurs_in lit t"
proof (induction s arbitrary: t)
  case Nil
  then show ?case by simp
next
  case (Cons c cs)
  then obtain d ds where t: "t = d # ds" by (cases t) auto
  have "starts_with lit (c # cs) = starts_with lit (d # ds)"
    using Cons.prems t by (intro starts_with_upper) simp
  moreover have "occurs_in lit cs = occurs_in lit ds"
    using Cons.prems t by (intro Cons.IH) simp
  ultimately show ?case by (simp add: t)
qed

lemma literal_RegExp_honours_i_flag: "honours_i_flag literal_RegExp"
  by (auto simp: honours_i_flag_def ignores_case_def literal_RegExp_def
      dest: occurs_in_upper split: if_splits)

lemma literal_RegExp_iss: "literal_RegExp ''iss'' ''i'' = Some (occurs_in ''iss'')"
  by (simp add: literal_RegExp_def is_SyntaxCharacter_def)

lemma literal_RegExp_open_group: "literal_RegExp ''('' ''i'' = None"
  by (simp add: literal_RegExp_def is_SyntaxCharacter_def)

subsection \<open>Values the examples use\<close>

lemma floor_log_10_25544: "floor_log 10 25544 = 4"
  by (simp add: floor_log_def count_digits.simps)

lemma toString_candidates_25544:
  "toString_candidates 25544 1 = []"
  "toString_candidates 25544 2 = []"
  "toString_candidates 25544 3 = []"
  "toString_candidates 25544 4 = []"
  "toString_candidates 25544 5 = [(5, 25544)]"
  by (simp_all add: toString_candidates_def floor_log_10_25544 pow10_def round64_numeral
      Let_def floor_numeral_divide)

lemma digits_of_25544: "digits_of 25544 = ''25544''"
  by (simp add: digits_of.simps)

lemma Number_toString_pos_25544: "Number_toString_pos 25544 = ''25544''"
  by (simp add: Number_toString_pos_def toString_candidates_25544 digits_of_25544)

lemma Number_toString_25544: "Number_toString (Fin 25544) = ''25544''"
  by (simp add: Number_toString_pos_25544)

lemma StringToNumber_examples:
  "StringToNumber ''1957'' = Fin 1957"
  "StringToNumber ''1998'' = Fin 1998"
  "StringToNumber ''415'' = Fin 415"
  "StringToNumber ''421'' = Fin 421"
  "StringToNumber ''214'' = Fin 214"
  "StringToNumber ''938'' = Fin 938"
  "StringToNumber ''unknown'' = NaN"
  "StringToNumber ''n/a'' = NaN"
  by (simp_all add: StringToNumber_eval)

lemma ToNumber_absent_or_non_numeric:
  "absent_or_non_numeric_string sat key \<Longrightarrow> ToNumber (Get sat key) = NaN"
  by (auto simp: absent_or_non_numeric_string_def Get_def split: option.splits jsval.splits)

subsection \<open>What the constructor allocates\<close>

lemma push_loop_appends:
  assumes "this < length h"
  shows "push_loop satCatData i this h = h[this := h ! this @ drop i satCatData]"
  using assms
proof (induction satCatData i this h rule: push_loop.induct)
  case (1 satCatData i this h)
  show ?case
  proof (cases "i < length satCatData")
    case False
    then show ?thesis
      by (subst push_loop.simps) (simp add: list_update_same_conv)
  next
    case True
    let ?h' = "h[this := h ! this @ [satCatData ! i]]"
    have "push_loop satCatData i this h = push_loop satCatData (Suc i) this ?h'"
      using True by (subst push_loop.simps) simp
    also have "\<dots> = ?h'[this := ?h' ! this @ drop (Suc i) satCatData]"
      using "1.IH"[OF True] "1.prems" by simp
    also have "\<dots> = h[this := h ! this @ drop i satCatData]"
      using True "1.prems" by (simp add: Cons_nth_drop_Suc[symmetric])
    finally show ?thesis .
  qed
qed

lemma SatCat_new_of_records:
  "SatCat_new (ArrayArg records) h = (h @ [records], length h)"
  by (simp add: SatCat_new_def push_loop_appends)

lemma SatCat_new_of_number:
  "SatCat_new (NumberArg n) h = (h @ [[]], length h)"
  by (simp add: SatCat_new_def)

section \<open>The claims\<close>

lemmas catalogue_eval =
  catalogue_def sl1_rb_def iss_def object_a_def iss_number_id_def Get_def

text \<open>
  C1. For a view and a call of any of the ten filter methods whose predicate exists (for
  the two pattern methods: whose pattern compiles), the call returns a view in a new
  array. Its elements are exactly the records of the receiver that satisfy the predicate,
  in the receiver's order: it is a subsequence of the receiver and no longer than it. The
  receiver and every other array of the store are as they were before the call.
\<close>

theorem filter_call_returns_matching_subsequence:
  assumes "this < length h" and "callback_of RegExp c = Some P"
  shows "\<exists>h' A. invoke RegExp c this h = (h', Inr A) \<and>
           A = length h \<and> length h' = Suc (length h) \<and>
           h' ! A = filter P (h ! this) \<and>
           subseq (h' ! A) (h ! this) \<and>
           length (h' ! A) \<le> length (h ! this) \<and>
           h' ! this = h ! this \<and> take (length h) h' = h"
proof -
  let ?kept = "filter P (h ! this)"
  have call: "invoke RegExp c this h = (h @ [?kept], Inr (length h))"
    using assms by (rule invoke_returned)
  have "subseq ?kept (h ! this)" by (rule subseq_filter_left)
  moreover have "length ?kept \<le> length (h ! this)" by (rule length_filter_le)
  moreover have "(h @ [?kept]) ! this = h ! this" using assms(1) by (simp add: nth_append)
  ultimately show ?thesis using call by simp
qed

theorem filter_call_returns_matching_subsequence_witness:
  "(0::nat) < length [catalogue] \<and>
   callback_of literal_RegExp (FilterByNamePattern ''iss'')
     = Some (\<lambda>sat. occurs_in ''iss'' (ToString (Get sat ''SATNAME''))) \<and>
   (\<exists>h' A. invoke literal_RegExp (FilterByNamePattern ''iss'') 0 [catalogue] = (h', Inr A) \<and>
      A = 1 \<and> length h' = 2 \<and> h' ! A = [iss, iss_number_id] \<and> h' ! 0 = catalogue)"
proof -
  have len: "(0::nat) < length [catalogue]" by simp
  have cb: "callback_of literal_RegExp (FilterByNamePattern ''iss'')
            = Some (\<lambda>sat. occurs_in ''iss'' (ToString (Get sat ''SATNAME'')))"
    by (simp add: literal_RegExp_iss)
  have kept: "filter (\<lambda>sat. occurs_in ''iss'' (ToString (Get sat ''SATNAME''))) catalogue
              = [iss, iss_number_id]"
    by (simp add: catalogue_eval ascii_upper_def)
  from filter_call_returns_matching_subsequence[OF len cb] kept
  show ?thesis using len cb by auto
qed

text \<open>
  C2, as the specification has it: \<^verbatim>\<open>filterByNoradIds(ids)\<close> compares the id of a record
  with the strings of \<open>ids\<close> as a string, so that a record whose id is stored as a number
  is kept when the string form of that number is in \<open>ids\<close>. The method does not: the id
  25544 stored as a number has the string form \<^verbatim>\<open>'25544'\<close>, and the call with
  \<^verbatim>\<open>['25544', '40000']\<close> on a view holding that record returns the empty view.
\<close>

theorem filterByNoradIds_number_id_counterexample:
  "iss_number_id ''NORAD_CAT_ID'' = Some (JNumber (Fin 25544)) \<and>
   ToString (Get iss_number_id ''NORAD_CAT_ID'') \<in> set [''25544'', ''40000''] \<and>
   filterByNoradIds [JString ''25544'', JString ''40000''] 0 [[iss_number_id]]
     = ([[iss_number_id], []], 1)"
proof -
  have id: "iss_number_id ''NORAD_CAT_ID'' = Some (JNumber (Fin 25544))"
    by (simp add: iss_number_id_def)
  then have "Get iss_number_id ''NORAD_CAT_ID'' = JNumber (Fin 25544)"
    by (simp add: Get_def)
  then show ?thesis
    using id by (simp add: Number_toString_pos_25544 filterByNoradIds_def Array_filter_result)
qed

text \<open>
  C2, amended. \<^verbatim>\<open>filterByNoradIds(ids)\<close> keeps exactly the records whose
  \<^verbatim>\<open>NORAD_CAT_ID\<close> is the same value as an element of \<open>ids\<close>, with no conversion between
  strings and numbers. For \<open>ids\<close> a list of strings these are the records whose id is
  stored as a string that is a member of \<open>ids\<close>; a record whose id is stored as a number
  is dropped.
\<close>

theorem filterByNoradIds_keeps_ids_of_same_type:
  assumes "this < length h"
  shows "\<exists>h' A. filterByNoradIds (map JString ids) this h = (h', A) \<and>
           h' ! A = filter (\<lambda>sat. \<exists>s \<in> set ids. sat ''NORAD_CAT_ID'' = Some (JString s)) (h ! this) \<and>
           (\<forall>sat n. sat ''NORAD_CAT_ID'' = Some (JNumber n) \<longrightarrow> sat \<notin> set (h' ! A))"
proof -
  have cb: "(\<lambda>sat. Array_includes (map JString ids) (Get sat ''NORAD_CAT_ID''))
            = (\<lambda>sat. \<exists>s \<in> set ids. sat ''NORAD_CAT_ID'' = Some (JString s))"
  proof
    fix sat :: sat
    show "Array_includes (map JString ids) (Get sat ''NORAD_CAT_ID'')
          = (\<exists>s \<in> set ids. sat ''NORAD_CAT_ID'' = Some (JString s))"
      by (cases "sat ''NORAD_CAT_ID''") (auto simp: Array_includes_iff Get_def)
  qed
  show ?thesis
    using assms by (auto simp: filterByNoradIds_def Array_filter_result cb)
qed

theorem filterByNoradIds_keeps_ids_of_same_type_witness:
  "(0::nat) < length [catalogue] \<and>
   (\<exists>h' A. filterByNoradIds (map JString [''25544'', ''40000'']) 0 [catalogue] = (h', A) \<and>
      h' ! A = [iss] \<and> iss_number_id \<notin> set (h' ! A))"
proof -
  have len: "(0::nat) < length [catalogue]" by simp
  have kept: "filter (\<lambda>sat. \<exists>s \<in> set [''25544'', ''40000''].
                         sat ''NORAD_CAT_ID'' = Some (JString s)) catalogue = [iss]"
    by (simp add: catalogue_eval)
  have number: "iss_number_id ''NORAD_CAT_ID'' = Some (JNumber (Fin 25544))"
    by (simp add: iss_number_id_def)
  from filterByNoradIds_keeps_ids_of_same_type[OF len, of "[''25544'', ''40000'']"]
  obtain h' A where
    call: "filterByNoradIds (map JString [''25544'', ''40000'']) 0 [catalogue] = (h', A)" and
    view: "h' ! A = filter (\<lambda>sat. \<exists>s \<in> set [''25544'', ''40000''].
                               sat ''NORAD_CAT_ID'' = Some (JString s)) ([catalogue] ! 0)" and
    numbers: "\<forall>sat n. sat ''NORAD_CAT_ID'' = Some (JNumber n) \<longrightarrow> sat \<notin> set (h' ! A)"
    by blast
  have "h' ! A = [iss]" using view kept by simp
  moreover have "iss_number_id \<notin> set (h' ! A)" using numbers number by blast
  ultimately show ?thesis using len call by blast
qed

text \<open>
  C3. The test suite calls \<^verbatim>\<open>satcat.filterByInclinationRange(0, 10)\<close> and expects a view.
  The class declares no member of that name (and \<^verbatim>\<open>Array.prototype\<close> has none): the
  property reads as \<^verbatim>\<open>undefined\<close> and the call throws a \<^verbatim>\<open>TypeError\<close>. The range method
  the class does declare is \<^verbatim>\<open>filterByLaunchYearRange\<close>.
\<close>

theorem filterByInclinationRange_is_not_a_member:
  "SatCat_member ''filterByInclinationRange'' = None \<and>
   SatCat_member ''filterByLaunchYearRange'' = Some Method"
  by (simp add: SatCat_member_def SatCat_members_def)

text \<open>
  C4. A record whose year, perigee or apogee is absent or is a string that is not a numeric
  literal is dropped by the filter that reads that property, and the call returns normally:
  the property converts to NaN, and no comparison with NaN holds. For
  \<^verbatim>\<open>filterByLaunchYears\<close> the years are numbers that are years, so NaN is not among them
  (\<^verbatim>\<open>includes\<close> would find a NaN in the list equal to the NaN of the record).
\<close>

theorem numeric_filters_drop_non_numeric:
  assumes "this < length h"
  shows "(absent_or_non_numeric_string sat ''LAUNCH_YEAR'' \<and> JNumber NaN \<notin> set years \<longrightarrow>
            (\<exists>h' A. invoke RegExp (FilterByLaunchYears years) this h = (h', Inr A) \<and>
               sat \<notin> set (h' ! A))) \<and>
         (absent_or_non_numeric_string sat ''LAUNCH_YEAR'' \<longrightarrow>
            (\<exists>h' A. invoke RegExp (FilterByLaunchYearRange startYear endYear) this h = (h', Inr A) \<and>
               sat \<notin> set (h' ! A))) \<and>
         (absent_or_non_numeric_string sat ''PERIGEE'' \<longrightarrow>
            (\<exists>h' A. invoke RegExp (FilterByMaxPerigee maxPerigee) this h = (h', Inr A) \<and>
               sat \<notin> set (h' ! A))) \<and>
         (absent_or_non_numeric_string sat ''APOGEE'' \<longrightarrow>
            (\<exists>h' A. invoke RegExp (FilterByMinApogee minApogee) this h = (h', Inr A) \<and>
               sat \<notin> set (h' ! A)))"
proof -
  have call: "invoke RegExp c this h =
              (case callback_of RegExp c of
                 None \<Rightarrow> (h, Inl SyntaxError)
               | Some P \<Rightarrow> (h @ [filter P (h ! this)], Inr (length h)))" for c
    using assms by (rule invoke_result)
  show ?thesis
    unfolding call
    by (auto simp: ToNumber_absent_or_non_numeric Array_includes_iff)
qed

theorem numeric_filters_drop_non_numeric_witness:
  "(0::nat) < length [catalogue] \<and>
   absent_or_non_numeric_string object_a ''LAUNCH_YEAR'' \<and>
   absent_or_non_numeric_string object_a ''PERIGEE'' \<and>
   absent_or_non_numeric_string object_a ''APOGEE'' \<and>
   JNumber NaN \<notin> set [JNumber (Fin 1998), JNumber (Fin 2019)] \<and>
   (\<exists>h' A. invoke literal_RegExp (FilterByLaunchYears [JNumber (Fin 1998), JNumber (Fin 2019)])
              0 [catalogue] = (h', Inr A) \<and> object_a \<notin> set (h' ! A)) \<and>
   (\<exists>h' A. invoke literal_RegExp (FilterByLaunchYearRange (Fin 1950) (Fin 2030))
              0 [catalogue] = (h', Inr A) \<and> object_a \<notin> set (h' ! A)) \<and>
   (\<exists>h' A. invoke literal_RegExp (FilterByMaxPerigee (Fin 500))
              0 [catalogue] = (h', Inr A) \<and> object_a \<notin> set (h' ! A)) \<and>
   (\<exists>h' A. invoke literal_RegExp (FilterByMinApogee (Fin 500))
              0 [catalogue] = (h', Inr A) \<and> object_a \<notin> set (h' ! A))"
proof -
  have len: "(0::nat) < length [catalogue]" by simp
  have year: "absent_or_non_numeric_string object_a ''LAUNCH_YEAR''"
    and perigee: "absent_or_non_numeric_string object_a ''PERIGEE''"
    and apogee: "absent_or_non_numeric_string object_a ''APOGEE''"
    by (simp_all add: absent_or_non_numeric_string_def object_a_def StringToNumber_examples)
  have years: "JNumber NaN \<notin> set [JNumber (Fin 1998), JNumber (Fin 2019)]" by simp
  from numeric_filters_drop_non_numeric[OF len, of object_a
      "[JNumber (Fin 1998), JNumber (Fin 2019)]" literal_RegExp "Fin 1950" "Fin 2030"
      "Fin 500" "Fin 500"]
  show ?thesis using len year perigee apogee years by blast
qed

text \<open>
  C5. The two pattern methods build the regular expression before they call \<^verbatim>\<open>filter\<close>.
  When the pattern is not well formed the constructor throws (the \<^verbatim>\<open>SyntaxError\<close> of the
  language, which the specification calls a PatternError) and the method ends there: no
  view is allocated and the store, the receiver in it, is as before. When the pattern
  compiles, the matcher is the one built with the flag \<^verbatim>\<open>'i'\<close>, applied to the string form
  of the name or of the id; so with an engine that honours the flag, two records of the
  view whose names (ids) differ only in the case of letters are both kept or both dropped.
\<close>

theorem pattern_filters_throw_or_match_ignoring_case:
  assumes "this < length h"
  shows "(RegExp pattern ''i'' = None \<longrightarrow>
            filterByNamePattern RegExp pattern this h = (h, Inl SyntaxError) \<and>
            filterByNoradIdPattern RegExp pattern this h = (h, Inl SyntaxError)) \<and>
         (\<forall>regex. RegExp pattern ''i'' = Some regex \<longrightarrow>
            filterByNamePattern RegExp pattern this h
              = (h @ [filter (\<lambda>sat. regex (ToString (Get sat ''SATNAME''))) (h ! this)],
                 Inr (length h)) \<and>
            filterByNoradIdPattern RegExp pattern this h
              = (h @ [filter (\<lambda>sat. regex (ToString (Get sat ''NORAD_CAT_ID''))) (h ! this)],
                 Inr (length h))) \<and>
         (honours_i_flag RegExp \<longrightarrow>
            (\<forall>a \<in> set (h ! this). \<forall>b \<in> set (h ! this). \<forall>kept.
               returned_view (filterByNamePattern RegExp pattern this h) = Inr kept \<and>
               map ascii_upper (ToString (Get a ''SATNAME''))
                 = map ascii_upper (ToString (Get b ''SATNAME''))
               \<longrightarrow> (a \<in> set kept \<longleftrightarrow> b \<in> set kept)) \<and>
            (\<forall>a \<in> set (h ! this). \<forall>b \<in> set (h ! this). \<forall>kept.
               returned_view (filterByNoradIdPattern RegExp pattern this h) = Inr kept \<and>
               map ascii_upper (ToString (Get a ''NORAD_CAT_ID''))
                 = map ascii_upper (ToString (Get b ''NORAD_CAT_ID''))
               \<longrightarrow> (a \<in> set kept \<longleftrightarrow> b \<in> set kept)))"
proof (cases "RegExp pattern ''i''")
  case None
  then show ?thesis
    by (simp add: filterByNamePattern_def filterByNoradIdPattern_def returned_view_def)
next
  case (Some regex)
  have name: "filterByNamePattern RegExp pattern this h
              = (h @ [filter (\<lambda>sat. regex (ToString (Get sat ''SATNAME''))) (h ! this)],
                 Inr (length h))"
    and id: "filterByNoradIdPattern RegExp pattern this h
              = (h @ [filter (\<lambda>sat. regex (ToString (Get sat ''NORAD_CAT_ID''))) (h ! this)],
                 Inr (length h))"
    using assms Some
    by (simp_all add: filterByNamePattern_def filterByNoradIdPattern_def Array_filter_result)
  have same: "regex s = regex t"
    if "honours_i_flag RegExp" "map ascii_upper s = map ascii_upper t" for s t
    using that Some unfolding honours_i_flag_def ignores_case_def by blast
  show ?thesis
    unfolding name id using Some
    by (auto simp: returned_view_def dest: same)
qed

theorem pattern_filters_throw_or_match_ignoring_case_witness:
  "(0::nat) < length [catalogue] \<and>
   literal_RegExp ''('' ''i'' = None \<and>
   filterByNamePattern literal_RegExp ''('' 0 [catalogue] = ([catalogue], Inl SyntaxError) \<and>
   filterByNoradIdPattern literal_RegExp ''('' 0 [catalogue] = ([catalogue], Inl SyntaxError) \<and>
   literal_RegExp ''iss'' ''i'' = Some (occurs_in ''iss'') \<and>
   honours_i_flag literal_RegExp \<and>
   map ascii_upper (ToString (Get iss ''SATNAME''))
     = map ascii_upper (ToString (Get iss_number_id ''SATNAME'')) \<and>
   filterByNamePattern literal_RegExp ''iss'' 0 [catalogue]
     = ([catalogue, [iss, iss_number_id]], Inr 1)"
proof -
  have len: "(0::nat) < length [catalogue]" by simp
  have upper: "map ascii_upper (ToString (Get iss ''SATNAME''))
               = map ascii_upper (ToString (Get iss_number_id ''SATNAME''))"
    by (simp add: catalogue_eval ascii_upper_def)
  have kept: "filter (\<lambda>sat. occurs_in ''iss'' (ToString (Get sat ''SATNAME''))) catalogue
              = [iss, iss_number_id]"
    by (simp add: catalogue_eval ascii_upper_def)
  from pattern_filters_throw_or_match_ignoring_case[OF len, of literal_RegExp "''(''"]
  have thrown:
    "filterByNamePattern literal_RegExp ''('' 0 [catalogue] = ([catalogue], Inl SyntaxError)"
    "filterByNoradIdPattern literal_RegExp ''('' 0 [catalogue] = ([catalogue], Inl SyntaxError)"
    using literal_RegExp_open_group by simp_all
  from pattern_filters_throw_or_match_ignoring_case[OF len, of literal_RegExp "''iss''"]
  have "filterByNamePattern literal_RegExp ''iss'' 0 [catalogue]
        = ([catalogue] @ [filter (\<lambda>sat. occurs_in ''iss'' (ToString (Get sat ''SATNAME'')))
                            ([catalogue] ! 0)], Inr (length [catalogue]))"
    using literal_RegExp_iss by simp
  then have returned: "filterByNamePattern literal_RegExp ''iss'' 0 [catalogue]
                       = ([catalogue, [iss, iss_number_id]], Inr 1)"
    using kept by simp
  show ?thesis
    using len upper thrown returned literal_RegExp_open_group literal_RegExp_iss
      literal_RegExp_honours_i_flag
    by simp
qed

text \<open>
  C6. The three range filters include their bounds. A record of the view whose perigee
  converts to a number equal to the maximum is kept by \<^verbatim>\<open>filterByMaxPerigee\<close>, one whose
  apogee equals the minimum by \<^verbatim>\<open>filterByMinApogee\<close>, and one whose launch year equals the
  start or the end of a range (a start that is not above the end) by
  \<^verbatim>\<open>filterByLaunchYearRange\<close>. Equal is the equality of numbers: NaN equals no bound.
\<close>

theorem range_filters_include_bounds:
  assumes "this < length h" and "sat \<in> set (h ! this)"
  shows "(js_le startYear endYear \<and>
            (Number_equal (ToNumber (Get sat ''LAUNCH_YEAR'')) startYear \<or>
             Number_equal (ToNumber (Get sat ''LAUNCH_YEAR'')) endYear) \<longrightarrow>
            (\<exists>h' A. invoke RegExp (FilterByLaunchYearRange startYear endYear) this h = (h', Inr A) \<and>
               sat \<in> set (h' ! A))) \<and>
         (Number_equal (ToNumber (Get sat ''PERIGEE'')) maxPerigee \<longrightarrow>
            (\<exists>h' A. invoke RegExp (FilterByMaxPerigee maxPerigee) this h = (h', Inr A) \<and>
               sat \<in> set (h' ! A))) \<and>
         (Number_equal (ToNumber (Get sat ''APOGEE'')) minApogee \<longrightarrow>
            (\<exists>h' A. invoke RegExp (FilterByMinApogee minApogee) this h = (h', Inr A) \<and>
               sat \<in> set (h' ! A)))"
proof -
  have call: "invoke RegExp c this h =
              (case callback_of RegExp c of
                 None \<Rightarrow> (h, Inl SyntaxError)
               | Some P \<Rightarrow> (h @ [filter P (h ! this)], Inr (length h)))" for c
    using assms(1) by (rule invoke_result)
  show ?thesis
    unfolding call using assms(2)
    by (auto simp: Number_equal_iff js_ge_iff_le js_le_refl)
qed

theorem range_filters_include_bounds_witness:
  "(0::nat) < length [catalogue] \<and> iss \<in> set ([catalogue] ! 0) \<and>
   js_le (Fin 1998) (Fin 2020) \<and>
   Number_equal (ToNumber (Get iss ''LAUNCH_YEAR'')) (Fin 1998) \<and>
   Number_equal (ToNumber (Get iss ''PERIGEE'')) (Fin 415) \<and>
   Number_equal (ToNumber (Get iss ''APOGEE'')) (Fin 421) \<and>
   (\<exists>h' A. invoke literal_RegExp (FilterByLaunchYearRange (Fin 1998) (Fin 2020)) 0 [catalogue]
              = (h', Inr A) \<and> iss \<in> set (h' ! A)) \<and>
   (\<exists>h' A. invoke literal_RegExp (FilterByMaxPerigee (Fin 415)) 0 [catalogue]
              = (h', Inr A) \<and> iss \<in> set (h' ! A)) \<and>
   (\<exists>h' A. invoke literal_RegExp (FilterByMinApogee (Fin 421)) 0 [catalogue]
              = (h', Inr A) \<and> iss \<in> set (h' ! A))"
proof -
  have len: "(0::nat) < length [catalogue]" by simp
  have here: "iss \<in> set ([catalogue] ! 0)" by (simp add: catalogue_def)
  have range: "js_le (Fin 1998) (Fin 2020)" by simp
  have year: "Number_equal (ToNumber (Get iss ''LAUNCH_YEAR'')) (Fin 1998)"
    and perigee: "Number_equal (ToNumber (Get iss ''PERIGEE'')) (Fin 415)"
    and apogee: "Number_equal (ToNumber (Get iss ''APOGEE'')) (Fin 421)"
    by (simp_all add: iss_def Get_def StringToNumber_examples)
  from range_filters_include_bounds[OF len here, of "Fin 1998" "Fin 2020" literal_RegExp
      "Fin 415" "Fin 421"]
  show ?thesis using len here range year perigee apogee by blast
qed

text \<open>
  C7. Idempotence. When a call of a filter method has returned a view, the same call on
  that view returns a view with the same elements, hence of the same length.
\<close>

theorem filter_call_idempotent:
  assumes "this < length h" and "invoke RegExp c this h = (h1, Inr A1)"
  shows "\<exists>h2 A2. invoke RegExp c A1 h1 = (h2, Inr A2) \<and>
           h2 ! A2 = h1 ! A1 \<and> length (h2 ! A2) = length (h1 ! A1)"
proof (cases "callback_of RegExp c")
  case None
  with assms show ?thesis by (simp add: invoke_thrown)
next
  case (Some P)
  with assms have first: "h1 = h @ [filter P (h ! this)]" "A1 = length h"
    by (simp_all add: invoke_returned)
  then have "A1 < length h1" by simp
  then have "invoke RegExp c A1 h1 = (h1 @ [filter P (h1 ! A1)], Inr (length h1))"
    using Some by (rule invoke_returned)
  moreover have "filter P (h1 ! A1) = h1 ! A1" by (simp add: first)
  ultimately show ?thesis by simp
qed

theorem filter_call_idempotent_witness:
  "(0::nat) < length [catalogue] \<and>
   invoke literal_RegExp (FilterByTypes [JString ''PAYLOAD'', JString ''ROCKET BODY'']) 0 [catalogue]
     = ([catalogue, [sl1_rb, iss, iss_number_id]], Inr 1) \<and>
   (\<exists>h2 A2. invoke literal_RegExp (FilterByTypes [JString ''PAYLOAD'', JString ''ROCKET BODY''])
               1 [catalogue, [sl1_rb, iss, iss_number_id]] = (h2, Inr A2) \<and>
      h2 ! A2 = [sl1_rb, iss, iss_number_id] \<and> length (h2 ! A2) = 3)"
proof -
  let ?types = "[JString ''PAYLOAD'', JString ''ROCKET BODY'']"
  have len: "(0::nat) < length [catalogue]" by simp
  have kept: "filter (\<lambda>sat. Array_includes ?types (Get sat ''OBJECT_TYPE'')) catalogue
              = [sl1_rb, iss, iss_number_id]"
    by (simp add: catalogue_eval)
  have first: "invoke literal_RegExp (FilterByTypes ?types) 0 [catalogue]
               = ([catalogue, [sl1_rb, iss, iss_number_id]], Inr 1)"
    using kept by (simp add: invoke_returned[OF len])
  from filter_call_idempotent[OF len first] obtain h2 A2 where
    again: "invoke literal_RegExp (FilterByTypes ?types) 1 [catalogue, [sl1_rb, iss, iss_number_id]]
            = (h2, Inr A2)" and
    same: "h2 ! A2 = [catalogue, [sl1_rb, iss, iss_number_id]] ! 1"
    by blast
  from same have "h2 ! A2 = [sl1_rb, iss, iss_number_id]" "length (h2 ! A2) = 3"
    by simp_all
  with again first len show ?thesis by blast
qed

text \<open>
  C8. Commutativity. Two filter calls chained in either order end alike: with the same
  error when a pattern does not compile, and otherwise with views of the same elements,
  hence of the same length. This holds for any two of the calls, whichever properties
  they read.
\<close>

theorem filter_calls_commute:
  assumes "this < length h"
  shows "returned_view (and_then (invoke RegExp a this h) (invoke RegExp b))
           = returned_view (and_then (invoke RegExp b this h) (invoke RegExp a)) \<and>
         map_sum id length (returned_view (and_then (invoke RegExp a this h) (invoke RegExp b)))
           = map_sum id length (returned_view (and_then (invoke RegExp b this h) (invoke RegExp a)))"
proof -
  have chain: "returned_view (and_then (invoke RegExp x this h) (invoke RegExp y)) =
               (case callback_of RegExp x of
                  None \<Rightarrow> Inl SyntaxError
                | Some P \<Rightarrow> (case callback_of RegExp y of
                              None \<Rightarrow> Inl SyntaxError
                            | Some Q \<Rightarrow> Inr (filter Q (filter P (h ! this)))))" for x y
  proof (cases "callback_of RegExp x")
    case None
    then show ?thesis
      using assms by (simp add: invoke_thrown and_then_def returned_view_def)
  next
    case (Some P)
    have "length h < length (h @ [filter P (h ! this)])" by simp
    from returned_view_invoke[OF this, of RegExp y] Some show ?thesis
      using assms by (simp add: invoke_returned and_then_def split: option.split)
  qed
  have "returned_view (and_then (invoke RegExp a this h) (invoke RegExp b))
        = returned_view (and_then (invoke RegExp b this h) (invoke RegExp a))"
    unfolding chain by (simp add: conj_commute split: option.split)
  then show ?thesis by simp
qed

theorem filter_calls_commute_witness:
  "(0::nat) < length [catalogue] \<and>
   returned_view (and_then (invoke literal_RegExp (FilterByTypes [JString ''PAYLOAD'']) 0 [catalogue])
                           (invoke literal_RegExp (FilterByCountryCodes [JString ''ISS''])))
     = returned_view (and_then (invoke literal_RegExp (FilterByCountryCodes [JString ''ISS'']) 0 [catalogue])
                               (invoke literal_RegExp (FilterByTypes [JString ''PAYLOAD''])))"
proof -
  have len: "(0::nat) < length [catalogue]" by simp
  from filter_calls_commute[OF len, of literal_RegExp "FilterByTypes [JString ''PAYLOAD'']"
      "FilterByCountryCodes [JString ''ISS'']"]
  show ?thesis using len by blast
qed

text \<open>
  C9. On a view whose records all have a launch year that converts to an integer,
  \<^verbatim>\<open>filterByLaunchYearRange(start, end)\<close> with integer bounds and \<^verbatim>\<open>filterByLaunchYears\<close>
  with the list of the integers from \<open>start\<close> to \<open>end\<close> return the same sequence of
  records. (It holds for a start above the end as well: both views are empty.)
\<close>

theorem launch_year_range_is_launch_years_of_interval:
  assumes "this < length h"
    and "\<forall>sat \<in> set (h ! this). \<exists>k. ToNumber (Get sat ''LAUNCH_YEAR'') = integer_Number k"
  shows "\<exists>kept.
           returned_view (invoke RegExp
             (FilterByLaunchYearRange (integer_Number start) (integer_Number end')) this h) = Inr kept \<and>
           returned_view (invoke RegExp
             (FilterByLaunchYears (integers_from_to start end')) this h) = Inr kept"
proof -
  have "filter (\<lambda>sat. js_ge (ToNumber (Get sat ''LAUNCH_YEAR'')) (integer_Number start) \<and>
                      js_le (ToNumber (Get sat ''LAUNCH_YEAR'')) (integer_Number end')) (h ! this)
        = filter (\<lambda>sat. Array_includes (integers_from_to start end')
                          (JNumber (ToNumber (Get sat ''LAUNCH_YEAR'')))) (h ! this)"
  proof (rule filter_cong[OF refl])
    fix sat assume "sat \<in> set (h ! this)"
    with assms(2) obtain k where k: "ToNumber (Get sat ''LAUNCH_YEAR'') = integer_Number k"
      by blast
    show "(js_ge (ToNumber (Get sat ''LAUNCH_YEAR'')) (integer_Number start) \<and>
           js_le (ToNumber (Get sat ''LAUNCH_YEAR'')) (integer_Number end'))
          = Array_includes (integers_from_to start end')
              (JNumber (ToNumber (Get sat ''LAUNCH_YEAR'')))"
      unfolding k by (auto simp: integer_Number_def integers_from_to_def Array_includes_iff)
  qed
  then show ?thesis
    using assms(1) by (simp add: returned_view_invoke)
qed

theorem launch_year_range_is_launch_years_of_interval_witness:
  "(0::nat) < length [[sl1_rb, iss, iss_number_id]] \<and>
   ToNumber (Get sl1_rb ''LAUNCH_YEAR'') = integer_Number 1957 \<and>
   ToNumber (Get iss ''LAUNCH_YEAR'') = integer_Number 1998 \<and>
   ToNumber (Get iss_number_id ''LAUNCH_YEAR'') = integer_Number 1998 \<and>
   (\<exists>kept.
      returned_view (invoke literal_RegExp
        (FilterByLaunchYearRange (integer_Number 1990) (integer_Number 2000)) 0
        [[sl1_rb, iss, iss_number_id]]) = Inr kept \<and>
      returned_view (invoke literal_RegExp
        (FilterByLaunchYears (integers_from_to 1990 2000)) 0
        [[sl1_rb, iss, iss_number_id]]) = Inr kept)"
proof -
  have len: "(0::nat) < length [[sl1_rb, iss, iss_number_id]]" by simp
  have each: "ToNumber (Get sl1_rb ''LAUNCH_YEAR'') = integer_Number 1957"
    "ToNumber (Get iss ''LAUNCH_YEAR'') = integer_Number 1998"
    "ToNumber (Get iss_number_id ''LAUNCH_YEAR'') = integer_Number 1998"
    by (simp_all add: catalogue_eval StringToNumber_examples integer_Number_def)
  then have years: "\<forall>sat \<in> set ([[sl1_rb, iss, iss_number_id]] ! 0).
                      \<exists>k. ToNumber (Get sat ''LAUNCH_YEAR'') = integer_Number k"
    by auto
  from launch_year_range_is_launch_years_of_interval[OF len years, of literal_RegExp 1990 2000]
  show ?thesis using len each by blast
qed

text \<open>
  C10. \<^verbatim>\<open>filterByStillOnOrbit\<close> keeps exactly the records whose \<^verbatim>\<open>DECAY\<close> property is
  present with the value \<^verbatim>\<open>null\<close>, in their order. A record that has no \<^verbatim>\<open>DECAY\<close>
  property (the read gives \<^verbatim>\<open>undefined\<close>) is dropped, as is a record with a decay date.
\<close>

theorem filterByStillOnOrbit_keeps_null_decay:
  assumes "this < length h"
  shows "\<exists>h' A. filterByStillOnOrbit this h = (h', A) \<and>
           h' ! A = filter (\<lambda>sat. sat ''DECAY'' = Some JNull) (h ! this) \<and>
           (\<forall>sat. sat ''DECAY'' = None \<longrightarrow> sat \<notin> set (h' ! A)) \<and>
           (\<forall>sat d. sat ''DECAY'' = Some (JString d) \<longrightarrow> sat \<notin> set (h' ! A))"
proof -
  have cb: "(\<lambda>sat. IsStrictlyEqual (Get sat ''DECAY'') JNull) = (\<lambda>sat. sat ''DECAY'' = Some JNull)"
  proof
    fix sat :: sat
    show "IsStrictlyEqual (Get sat ''DECAY'') JNull = (sat ''DECAY'' = Some JNull)"
      by (cases "sat ''DECAY''") (simp_all add: Get_def IsStrictlyEqual_JNull)
  qed
  show ?thesis
    using assms by (auto simp: filterByStillOnOrbit_def Array_filter_result cb)
qed

theorem filterByStillOnOrbit_keeps_null_decay_witness:
  "(0::nat) < length [catalogue] \<and>
   object_a ''DECAY'' = None \<and> sl1_rb ''DECAY'' = Some (JString ''1957-12-01'') \<and>
   (\<exists>h' A. filterByStillOnOrbit 0 [catalogue] = (h', A) \<and> h' ! A = [iss, iss_number_id] \<and>
      object_a \<notin> set (h' ! A) \<and> sl1_rb \<notin> set (h' ! A))"
proof -
  have len: "(0::nat) < length [catalogue]" by simp
  have absent: "object_a ''DECAY'' = None" and dated: "sl1_rb ''DECAY'' = Some (JString ''1957-12-01'')"
    by (simp_all add: object_a_def sl1_rb_def)
  have kept: "filter (\<lambda>sat. sat ''DECAY'' = Some JNull) catalogue = [iss, iss_number_id]"
    by (simp add: catalogue_eval)
  from filterByStillOnOrbit_keeps_null_decay[OF len] obtain h' A where
    "filterByStillOnOrbit 0 [catalogue] = (h', A)"
    "h' ! A = filter (\<lambda>sat. sat ''DECAY'' = Some JNull) ([catalogue] ! 0)"
    "\<forall>sat. sat ''DECAY'' = None \<longrightarrow> sat \<notin> set (h' ! A)"
    "\<forall>sat d. sat ''DECAY'' = Some (JString d) \<longrightarrow> sat \<notin> set (h' ! A)"
    by blast
  then show ?thesis using len absent dated kept by auto
qed

end
